theory Spec2Isabelle
  imports Complex_Main
begin

section \<open>Python strings\<close>

text \<open>
  A Python \<open>str\<close> is modelled as a \<open>string\<close>, one \<open>char\<close> per code point (code points
  below 256; the one character of the program beyond them, in a fixed label of variant 2,
  is written as its UTF-8 bytes). \<open>NL\<close> is the line feed, Python's \<open>"\n"\<close>.
\<close>

abbreviation NL :: char where
  "NL \<equiv> CHR 0x0A"

definition py_isspace :: "char \<Rightarrow> bool" where
  \<comment> \<open>\<open>str.isspace\<close> on one character: TAB, LF, VT, FF, CR, FS, GS, RS, US, SPACE, NEL, NBSP.\<close>
  "py_isspace c =
     (let n = (of_char c :: nat)
      in (9 \<le> n \<and> n \<le> 13) \<or> (28 \<le> n \<and> n \<le> 32) \<or> n = 133 \<or> n = 160)"

definition py_strip :: "string \<Rightarrow> string" where
  \<comment> \<open>\<open>s.strip()\<close>: leading and trailing whitespace removed.\<close>
  "py_strip s = rev (dropWhile py_isspace (rev (dropWhile py_isspace s)))"

fun py_split_nl :: "string \<Rightarrow> string list" where
  \<comment> \<open>\<open>s.split("\n")\<close>: never empty, \<open>"".split("\n") == [""]\<close>.\<close>
  "py_split_nl [] = [[]]"
| "py_split_nl (c # cs) =
     (if c = NL then [] # py_split_nl cs
      else (case py_split_nl cs of
              [] \<Rightarrow> [[c]]
            | seg # segs \<Rightarrow> (c # seg) # segs))"

fun py_join_nl :: "string list \<Rightarrow> string" where
  \<comment> \<open>\<open>"\n".join(xs)\<close>\<close>
  "py_join_nl [] = []"
| "py_join_nl [x] = x"
| "py_join_nl (x # y # ys) = x @ NL # py_join_nl (y # ys)"

section \<open>Exceptions, responses, the file system\<close>

datatype exn =
    HTTPException (status_code: nat) (detail: string) (headers: "(string \<times> string) list")
  | JWTError string      \<comment> \<open>\<open>jose.JWTError\<close> and its subclasses (bad signature, expired, bad claims)\<close>
  | OtherError string    \<comment> \<open>any other exception a library call raises\<close>

datatype response =
    JSONBody "(string \<times> string) list"    \<comment> \<open>a returned dict: status 200, JSON body\<close>
  | FileResponse (path: string) (filename: string) (media_type: string)

text \<open>
  The file system is a store from path strings to nodes. Paths are looked up as the
  strings the program builds; the operating system's resolution of \<open>.\<close>, \<open>..\<close> and links is
  not modelled, nor are its I/O failures on writing.
\<close>

datatype node = RegularFile string | Directory

type_synonym filesystem = "string \<rightharpoonup> node"

definition write_file :: "filesystem \<Rightarrow> string \<Rightarrow> string \<Rightarrow> filesystem" where
  \<comment> \<open>\<open>with open(p, "wb") as f: f.write(b)\<close>\<close>
  "write_file fs p b = fs(p \<mapsto> RegularFile b)"

definition os_remove :: "filesystem \<Rightarrow> string \<Rightarrow> exn + filesystem" where
  "os_remove fs p =
     (case fs p of
        Some (RegularFile b) \<Rightarrow> Inr (fs(p := None))
      | Some Directory \<Rightarrow> Inl (OtherError ''IsADirectoryError'')
      | None \<Rightarrow> Inl (OtherError ''FileNotFoundError''))"

definition os_path_exists :: "filesystem \<Rightarrow> string \<Rightarrow> bool" where
  "os_path_exists fs p = (fs p \<noteq> None)"

section \<open>Text extraction (POST /upload/)\<close>

text \<open>
  \<open>pdfplumber.open\<close> and \<open>page.extract_text\<close> belong to the PDF library: they are
  parameters \<open>pdf_open\<close> (from the bytes of the file to its pages, or an exception) and
  \<open>extract_text\<close> (from a page to its text, \<open>None\<close>, or an exception).
\<close>

fun extract_loop :: "('page \<Rightarrow> exn + string option) \<Rightarrow> 'page list \<Rightarrow> string \<Rightarrow> exn + string" where
  "extract_loop extract_text [] extracted_text = Inr extracted_text"
| "extract_loop extract_text (page # pages) extracted_text =
     (case extract_text page of
        Inl e \<Rightarrow> Inl e
      | Inr text \<Rightarrow>
          (case text of
             None \<Rightarrow> extract_loop extract_text pages extracted_text
           | Some t \<Rightarrow>
               if t \<noteq> [] then extract_loop extract_text pages (extracted_text @ t @ [NL])
               else extract_loop extract_text pages extracted_text))"

definition extract_file ::
  "(string \<Rightarrow> exn + 'page list) \<Rightarrow> ('page \<Rightarrow> exn + string option) \<Rightarrow>
   filesystem \<Rightarrow> string \<Rightarrow> exn + string" where
  \<comment> \<open>the \<open>with pdfplumber.open(temp_filename) as pdf\<close> block, started from \<open>""\<close>\<close>
  "extract_file pdf_open extract_text fs temp_filename =
     (case fs temp_filename of
        Some (RegularFile b) \<Rightarrow>
          (case pdf_open b of
             Inl e \<Rightarrow> Inl e
           | Inr pages \<Rightarrow> extract_loop extract_text pages [])
      | _ \<Rightarrow> Inl (OtherError ''FileNotFoundError''))"

definition upload_pdf_v2 ::
  "(string \<Rightarrow> exn + 'page list) \<Rightarrow> ('page \<Rightarrow> exn + string option) \<Rightarrow>
   string \<Rightarrow> string \<Rightarrow> filesystem \<Rightarrow> (exn + response) \<times> filesystem" where
  \<comment> \<open>\<open>src/main.py\<close>: no \<open>try\<close>; \<open>uuid4\<close> is \<open>str(uuid.uuid4())\<close>, \<open>file\<close> the uploaded bytes\<close>
  "upload_pdf_v2 pdf_open extract_text uuid4 file fs =
     (let temp_filename = ''temp_'' @ uuid4 @ ''.pdf'';
          fs1 = write_file fs temp_filename file
      in case extract_file pdf_open extract_text fs1 temp_filename of
           Inl e \<Rightarrow> (Inl e, fs1)
         | Inr extracted_text \<Rightarrow>
             (case os_remove fs1 temp_filename of
                Inl e \<Rightarrow> (Inl e, fs1)
              | Inr fs2 \<Rightarrow> (Inr (JSONBody [(''extracted_text'', py_strip extracted_text)]), fs2)))"

section \<open>Authentication and the audit log (variant 1, \<open>src/backend/app/main.py\<close>)\<close>

record User =
  username :: string
  full_name :: "string option"
  disabled :: "bool option"

record UserInDB = User +
  hashed_password :: string

type_synonym users_db = "string \<rightharpoonup> UserInDB"

definition fake_users_db :: users_db where
  "fake_users_db =
     [''admin'' \<mapsto>
        \<lparr>username = ''admin'', full_name = Some ''Admin User'', disabled = Some False,
         hashed_password = ''$2b$12$KIXQ1q6v6q6q6q6q6q6q6u6q6q6q6q6q6q6q6q6q6q6q6q6q6q6q6''\<rparr>]"

definition get_user :: "users_db \<Rightarrow> string \<Rightarrow> UserInDB option" where
  \<comment> \<open>returns \<open>None\<close> when the name is not a key\<close>
  "get_user db name = db name"

definition credentials_exception :: exn where
  "credentials_exception =
     HTTPException 401 ''Could not validate credentials'' [(''WWW-Authenticate'', ''Bearer'')]"

text \<open>
  \<open>jwt.decode(token, SECRET_KEY, algorithms=[ALGORITHM])\<close> is the parameter \<open>jwt_decode\<close>:
  from a token to its payload (a dict), or the exception the library raises. The module's
  table \<open>fake_users_db\<close> is passed as \<open>db\<close>.
\<close>

definition get_current_user ::
  "users_db \<Rightarrow> (string \<Rightarrow> exn + (string \<rightharpoonup> string)) \<Rightarrow> string \<Rightarrow> exn + UserInDB" where
  "get_current_user db jwt_decode token =
     (case jwt_decode token of
        Inl (JWTError m) \<Rightarrow> Inl credentials_exception
      | Inl e \<Rightarrow> Inl e
      | Inr payload \<Rightarrow>
          (case payload ''sub'' of
             None \<Rightarrow> Inl credentials_exception
           | Some name \<Rightarrow>
               (case get_user db name of
                  None \<Rightarrow> Inl credentials_exception
                | Some user \<Rightarrow> Inr user)))"

definition get_current_active_user :: "'a User_scheme \<Rightarrow> exn + 'a User_scheme" where
  \<comment> \<open>\<open>if current_user.disabled\<close>: \<open>None\<close> and \<open>False\<close> are both falsy\<close>
  "get_current_active_user current_user =
     (if disabled current_user = Some True then Inl (HTTPException 400 ''Inactive user'' [])
      else Inr current_user)"

definition depends_current_active_user ::
  "users_db \<Rightarrow> (string \<Rightarrow> exn + (string \<rightharpoonup> string)) \<Rightarrow> string \<Rightarrow> exn + UserInDB" where
  \<comment> \<open>\<open>Depends(get_current_active_user)\<close>, itself depending on \<open>get_current_user\<close>\<close>
  "depends_current_active_user db jwt_decode token =
     (case get_current_user db jwt_decode token of
        Inl e \<Rightarrow> Inl e
      | Inr user \<Rightarrow> get_current_active_user user)"

type_synonym datetime = nat

record AuditLog =
  audit_id :: nat
  audit_username :: string
  audit_action :: string
  audit_timestamp :: datetime

definition next_id :: "AuditLog list \<Rightarrow> nat" where
  \<comment> \<open>the integer primary key the database assigns: one more than the largest so far\<close>
  "next_id rows = Suc (fold max (map audit_id rows) 0)"

definition log_action :: "datetime \<Rightarrow> AuditLog list \<Rightarrow> string \<Rightarrow> string \<Rightarrow> AuditLog list" where
  \<comment> \<open>\<open>add\<close> and \<open>commit\<close> of one row; \<open>utcnow\<close> is the column default \<open>datetime.utcnow\<close>\<close>
  "log_action utcnow rows name action =
     rows @ [\<lparr>audit_id = next_id rows, audit_username = name, audit_action = action,
              audit_timestamp = utcnow\<rparr>]"

record world =
  files :: filesystem
  audit_logs :: "AuditLog list"

definition upload_pdf_v1 ::
  "(string \<Rightarrow> exn + 'page list) \<Rightarrow> ('page \<Rightarrow> exn + string option) \<Rightarrow>
   string \<Rightarrow> datetime \<Rightarrow> string \<Rightarrow> 'a User_scheme \<Rightarrow> world \<Rightarrow> (exn + response) \<times> world" where
  \<comment> \<open>\<open>try ... finally: os.remove(temp_filename)\<close>: the removal runs on both exits of the body\<close>
  "upload_pdf_v1 pdf_open extract_text uuid4 utcnow file current_user w =
     (let temp_filename = ''temp_'' @ uuid4 @ ''.pdf'';
          fs1 = write_file (files w) temp_filename file;
          body = extract_file pdf_open extract_text fs1 temp_filename
      in case os_remove fs1 temp_filename of
           Inl e \<Rightarrow> (Inl e, w\<lparr>files := fs1\<rparr>)
         | Inr fs2 \<Rightarrow>
             (case body of
                Inl e \<Rightarrow> (Inl e, w\<lparr>files := fs2\<rparr>)
              | Inr extracted_text \<Rightarrow>
                  (Inr (JSONBody [(''extracted_text'', py_strip extracted_text)]),
                   w\<lparr>files := fs2,
                     audit_logs := log_action utcnow (audit_logs w) (username current_user)
                                     ''Uploaded PDF and extracted text''\<rparr>)))"

section \<open>Paths\<close>

definition OUTPUT_DIR :: string where
  "OUTPUT_DIR = ''generated_pdfs''"

definition os_path_basename :: "string \<Rightarrow> string" where
  \<comment> \<open>\<open>posixpath.basename\<close>: what follows the last \<open>/\<close>\<close>
  "os_path_basename p = rev (takeWhile (\<lambda>c. c \<noteq> CHR ''/'') (rev p))"

definition os_path_join :: "string \<Rightarrow> string \<Rightarrow> string" where
  \<comment> \<open>\<open>posixpath.join(a, b)\<close>\<close>
  "os_path_join a b =
     (if take 1 b = ''/'' then b
      else if a = [] \<or> last a = CHR ''/'' then a @ b
      else a @ ''/'' @ b)"

section \<open>FIR document generation (POST /generate/)\<close>

text \<open>
  The drawing library is modelled by what the program asks of it: a canvas records the
  operations in the order they are called. Coordinates are Python floats, taken as exact
  reals. The library's constants and functions are parameters: the page size \<open>A4\<close>
  (width and height), the unit \<open>mm\<close>, the font metric \<open>stringWidth\<close>, and \<open>pdf_bytes\<close>,
  the bytes that \<open>c.save()\<close> writes for a canvas.
\<close>

datatype color = black

datatype canvas_op =
    SetFont string real
  | DrawString real real string
  | ShowPage
  | Line real real real real
  | SetStrokeColor color
  | Rect real real real real nat nat    \<comment> \<open>x, y, width, height, stroke, fill\<close>

record canvas =
  canvas_filename :: string
  pagesize :: "real \<times> real"
  ops :: "canvas_op list"

definition Canvas :: "string \<Rightarrow> real \<times> real \<Rightarrow> canvas" where
  "Canvas name psize = \<lparr>canvas_filename = name, pagesize = psize, ops = []\<rparr>"

definition setFont :: "canvas \<Rightarrow> string \<Rightarrow> real \<Rightarrow> canvas" where
  "setFont c name psize = c\<lparr>ops := ops c @ [SetFont name psize]\<rparr>"

definition drawString :: "canvas \<Rightarrow> real \<Rightarrow> real \<Rightarrow> string \<Rightarrow> canvas" where
  "drawString c x y text = c\<lparr>ops := ops c @ [DrawString x y text]\<rparr>"

definition showPage :: "canvas \<Rightarrow> canvas" where
  "showPage c = c\<lparr>ops := ops c @ [ShowPage]\<rparr>"

definition line :: "canvas \<Rightarrow> real \<Rightarrow> real \<Rightarrow> real \<Rightarrow> real \<Rightarrow> canvas" where
  "line c x1 y1 x2 y2 = c\<lparr>ops := ops c @ [Line x1 y1 x2 y2]\<rparr>"

definition setStrokeColor :: "canvas \<Rightarrow> color \<Rightarrow> canvas" where
  "setStrokeColor c col = c\<lparr>ops := ops c @ [SetStrokeColor col]\<rparr>"

definition rect :: "canvas \<Rightarrow> real \<Rightarrow> real \<Rightarrow> real \<Rightarrow> real \<Rightarrow> nat \<Rightarrow> nat \<Rightarrow> canvas" where
  "rect c x y w h stroke fill = c\<lparr>ops := ops c @ [Rect x y w h stroke fill]\<rparr>"

definition save :: "(canvas \<Rightarrow> string) \<Rightarrow> canvas \<Rightarrow> filesystem \<Rightarrow> filesystem" where
  "save pdf_bytes c fs = write_file fs (canvas_filename c) (pdf_bytes c)"

subsection \<open>Variant 1\<close>

fun complaint_loop :: "real \<Rightarrow> string list \<Rightarrow> canvas \<times> real \<Rightarrow> canvas \<times> real" where
  \<comment> \<open>\<open>for line in complaint_text.split("\n")\<close>, on the canvas and the cursor \<open>y\<close>\<close>
  "complaint_loop height [] (c, y) = (c, y)"
| "complaint_loop height (seg # segs) (c, y) =
     (let (c, y) = (if y < 50 then (showPage c, height - 50) else (c, y));
          c = drawString c 50 y (py_strip seg);
          y = y - 15
      in complaint_loop height segs (c, y))"

definition fir_header_v1 :: "real \<times> real \<Rightarrow> string \<Rightarrow> string \<Rightarrow> string \<Rightarrow> string \<Rightarrow> canvas \<times> real" where
  \<comment> \<open>lines 159 to 177: the canvas and the cursor on entry to the complaint loop\<close>
  "fir_header_v1 A4 output_filename fir_no victim_name fraud_amount =
     (let c = Canvas output_filename A4;
          (width, height) = A4;
          y = height - 50;
          c = setFont c ''Helvetica-Bold'' 16;
          c = drawString c 50 y (''FIR No.: '' @ fir_no);
          y = y - 30;
          c = setFont c ''Helvetica'' 12;
          c = drawString c 50 y (''Victim Name: '' @ victim_name);
          y = y - 20;
          c = drawString c 50 y (''Fraud Amount: '' @ fraud_amount);
          y = y - 40;
          c = setFont c ''Helvetica-Bold'' 14;
          c = drawString c 50 y ''Complaint Details:'';
          y = y - 20;
          c = setFont c ''Helvetica'' 11
      in (c, y))"

definition fir_canvas_v1 ::
  "real \<times> real \<Rightarrow> string \<Rightarrow> string \<Rightarrow> string \<Rightarrow> string \<Rightarrow> string \<Rightarrow> canvas" where
  \<comment> \<open>lines 159 to 184: the canvas as it is when \<open>c.save()\<close> is called\<close>
  "fir_canvas_v1 A4 output_filename fir_no victim_name fraud_amount complaint_text =
     fst (complaint_loop (snd A4) (py_split_nl complaint_text)
            (fir_header_v1 A4 output_filename fir_no victim_name fraud_amount))"

definition generate_fir_v1 ::
  "real \<times> real \<Rightarrow> (canvas \<Rightarrow> string) \<Rightarrow> string \<Rightarrow> datetime \<Rightarrow>
   string \<Rightarrow> string \<Rightarrow> string \<Rightarrow> string \<Rightarrow> 'a User_scheme \<Rightarrow> world \<Rightarrow> (exn + response) \<times> world" where
  "generate_fir_v1 A4 pdf_bytes uuid4 utcnow fir_no victim_name fraud_amount complaint_text
       current_user w =
     (let output_filename = OUTPUT_DIR @ ''/FIR_'' @ uuid4 @ ''.pdf'';
          c = fir_canvas_v1 A4 output_filename fir_no victim_name fraud_amount complaint_text;
          fs1 = save pdf_bytes c (files w);
          logs = log_action utcnow (audit_logs w) (username current_user)
                   (''Generated FIR PDF '' @ output_filename)
      in (Inr (JSONBody [(''download_link'', ''/download/'' @ os_path_basename output_filename)]),
          w\<lparr>files := fs1, audit_logs := logs\<rparr>))"

subsection \<open>Variant 2\<close>

definition fir_canvas_v2 ::
  "real \<times> real \<Rightarrow> real \<Rightarrow> (string \<Rightarrow> string \<Rightarrow> real \<Rightarrow> real) \<Rightarrow>
   string \<Rightarrow> string \<Rightarrow> string \<Rightarrow> string \<Rightarrow> string \<Rightarrow> string \<Rightarrow> string \<Rightarrow> canvas" where
  \<comment> \<open>lines 58 to 112 of \<open>src/main.py\<close>; the apostrophe of the victim label is U+2019, written
      here as its three UTF-8 bytes\<close>
  "fir_canvas_v2 A4 mm stringWidth output_filename fir_no fir_date section' victim_name
       fraud_amount complaint_text =
     (let c = Canvas output_filename A4;
          (width, height) = A4;
          margin_left = 30 * mm;
          margin_top = height - 30 * mm;
          line_height = 14;
          c = setFont c ''Helvetica-Bold'' 14;
          c = drawString c margin_left margin_top (''FIR no.: '' @ fir_no @ '' dated '' @ fir_date);
          c = setFont c ''Helvetica-Bold'' 12;
          c = drawString c margin_left (margin_top - line_height * 1.5)
                (''Under Section: '' @ section');
          c = drawString c margin_left (margin_top - line_height * 3)
                (''Victim'' @ [CHR 0xE2, CHR 0x80, CHR 0x99] @ ''s Name: '' @ victim_name);
          c = drawString c margin_left (margin_top - line_height * 4.5)
                (''Total Fraud Amount: '' @ fraud_amount @ '' /- INR'');
          notes_top = margin_top - line_height * 6.5;
          notes_left = margin_left;
          notes_width = width - 2 * margin_left;
          c = setFont c ''Helvetica'' 11;
          c = drawString c notes_left notes_top ''Notes:-'';
          line_y = notes_top - 10;
          line_spacing = 15;
          c = fold (\<lambda>i c. line c notes_left (line_y - real i * line_spacing)
                             (notes_left + notes_width) (line_y - real i * line_spacing))
                [0..<7] c;
          flowchart_title_y = line_y - line_spacing * 8 - 10;
          c = setFont c ''Helvetica-BoldOblique'' 14;
          flowchart_title = ''Flow Chart'';
          text_width = stringWidth flowchart_title ''Helvetica-BoldOblique'' 14;
          c = drawString c ((width - text_width) / 2) flowchart_title_y flowchart_title;
          c = line c ((width - text_width) / 2) (flowchart_title_y - 2)
                ((width + text_width) / 2) (flowchart_title_y - 2);
          flowchart_box_top = flowchart_title_y - 20;
          flowchart_box_left = margin_left;
          flowchart_box_width = width - 2 * margin_left;
          flowchart_box_height = 200;
          c = setStrokeColor c black;
          c = rect c flowchart_box_left (flowchart_box_top - flowchart_box_height)
                flowchart_box_width flowchart_box_height 1 0;
          c = setFont c ''Helvetica'' 10;
          placeholder_text = ''Flow chart diagram goes here'';
          text_width = stringWidth placeholder_text ''Helvetica'' 10;
          c = drawString c ((width - text_width) / 2)
                (flowchart_box_top - flowchart_box_height / 2) placeholder_text
      in c)"

definition generate_fir_v2 ::
  "real \<times> real \<Rightarrow> real \<Rightarrow> (string \<Rightarrow> string \<Rightarrow> real \<Rightarrow> real) \<Rightarrow> (canvas \<Rightarrow> string) \<Rightarrow> string \<Rightarrow>
   string \<Rightarrow> string \<Rightarrow> string \<Rightarrow> string \<Rightarrow> string \<Rightarrow> string \<Rightarrow> filesystem \<Rightarrow>
   (exn + response) \<times> filesystem" where
  "generate_fir_v2 A4 mm stringWidth pdf_bytes uuid4 fir_no fir_date section' victim_name
       fraud_amount complaint_text fs =
     (let output_filename = OUTPUT_DIR @ ''/FIR_'' @ uuid4 @ ''.pdf'';
          c = fir_canvas_v2 A4 mm stringWidth output_filename fir_no fir_date section'
                victim_name fraud_amount complaint_text;
          fs1 = save pdf_bytes c fs
      in (Inr (JSONBody [(''download_link'', ''/download/'' @ os_path_basename output_filename)]),
          fs1))"

section \<open>Download (GET /download/{filename})\<close>

definition download_file_v2 :: "string \<Rightarrow> filesystem \<Rightarrow> exn + response" where
  "download_file_v2 name fs =
     (let file_path = os_path_join OUTPUT_DIR name
      in if os_path_exists fs file_path
         then Inr (FileResponse file_path name ''application/pdf'')
         else Inr (JSONBody [(''error'', ''File not found'')]))"

definition download_file_v1 :: "string \<Rightarrow> 'a User_scheme \<Rightarrow> world \<Rightarrow> (exn + response) \<times> world" where
  \<comment> \<open>the handler reads the file system and writes nothing\<close>
  "download_file_v1 name current_user w =
     (let file_path = os_path_join OUTPUT_DIR name
      in if os_path_exists (files w) file_path
         then (Inr (FileResponse file_path name ''application/pdf''), w)
         else (Inr (JSONBody [(''error'', ''File not found'')]), w))"

definition file_response_content :: "filesystem \<Rightarrow> exn + response \<Rightarrow> string option" where
  \<comment> \<open>what the framework streams for a \<open>FileResponse\<close>: the bytes of the regular file at its
      path; \<open>None\<close> when there is no regular file there and sending the response fails (the
      framework raises and the client gets a server error), and for a body that is no file\<close>
  "file_response_content fs r =
     (case r of
        Inr (FileResponse p n m) \<Rightarrow>
          (case fs p of Some (RegularFile b) \<Rightarrow> Some b | _ \<Rightarrow> None)
      | _ \<Rightarrow> None)"

section \<open>Protected calls (variant 1)\<close>

definition protected ::
  "users_db \<Rightarrow> (string \<Rightarrow> exn + (string \<rightharpoonup> string)) \<Rightarrow> string \<Rightarrow>
   (UserInDB \<Rightarrow> world \<Rightarrow> (exn + response) \<times> world) \<Rightarrow> world \<Rightarrow> (exn + response) \<times> world" where
  \<comment> \<open>a handler declared with \<open>current_user: User = Depends(get_current_active_user)\<close>:
      the handler runs only when the dependency returns a user\<close>
  "protected db jwt_decode token handler w =
     (case depends_current_active_user db jwt_decode token of
        Inl e \<Rightarrow> (Inl e, w)
      | Inr current_user \<Rightarrow> handler current_user w)"

text \<open>
  The state of an empty working directory right after the import of variant 1:
  \<open>os.makedirs(OUTPUT_DIR, exist_ok=True)\<close> has made the output directory and
  \<open>Base.metadata.create_all\<close> the database file \<open>./audit.db\<close> with an empty \<open>audit_logs\<close>
  table. The store does not resolve paths, so each node is entered under the relative path
  strings that name it: the output directory also as its entry \<open>.\<close>, the working directory
  as the entry \<open>..\<close> of the output directory, the database file also through the output
  directory. The examples of variant 2 start from the same files.
\<close>

definition fresh_world :: world where
  "fresh_world =
     \<lparr>files =
        [OUTPUT_DIR \<mapsto> Directory,
         OUTPUT_DIR @ ''/.'' \<mapsto> Directory,
         OUTPUT_DIR @ ''/..'' \<mapsto> Directory,
         ''audit.db'' \<mapsto> RegularFile ''SQLite format 3'',
         ''./audit.db'' \<mapsto> RegularFile ''SQLite format 3'',
         OUTPUT_DIR @ ''/../audit.db'' \<mapsto> RegularFile ''SQLite format 3''],
      audit_logs = []\<rparr>"

section \<open>Observations used in the statements\<close>

fun nonempty_texts :: "string option list \<Rightarrow> string list" where
  \<comment> \<open>the page texts that are neither \<open>None\<close> nor \<open>""\<close>, in page order\<close>
  "nonempty_texts [] = []"
| "nonempty_texts (None # ts) = nonempty_texts ts"
| "nonempty_texts (Some t # ts) = (if t = [] then nonempty_texts ts else t # nonempty_texts ts)"

fun drawn_strings :: "canvas_op list \<Rightarrow> string list" where
  \<comment> \<open>the texts of the \<open>drawString\<close> calls, in order\<close>
  "drawn_strings [] = []"
| "drawn_strings (DrawString x y t # rest) = t # drawn_strings rest"
| "drawn_strings (other # rest) = drawn_strings rest"

fun loop_ops :: "real \<Rightarrow> string list \<Rightarrow> real \<Rightarrow> canvas_op list" where
  \<comment> \<open>the operations \<open>complaint_loop\<close> appends, from cursor \<open>y\<close>\<close>
  "loop_ops h [] y = []"
| "loop_ops h (seg # segs) y =
     (if y < 50
      then ShowPage # DrawString 50 (h - 50) (py_strip seg) # loop_ops h segs (h - 50 - 15)
      else DrawString 50 y (py_strip seg) # loop_ops h segs (y - 15))"

definition is_uuid_str :: "string \<Rightarrow> bool" where
  \<comment> \<open>the shape of \<open>str(uuid.uuid4())\<close>: 36 characters, hexadecimal digits and dashes\<close>
  "is_uuid_str u = (length u = 36 \<and> list_all (\<lambda>c. c \<in> set ''0123456789abcdef-'') u)"

section \<open>Library doubles for the examples\<close>

text \<open>
  Concrete stand-ins for the library parameters, used where a statement is evaluated at an
  input. \<open>reportlab_mm\<close> and \<open>reportlab_A4\<close> are the values the drawing library gives to
  \<open>mm\<close> and \<open>A4\<close> (72 points per inch, 2.54 cm per inch).
\<close>

definition reportlab_mm :: real where
  "reportlab_mm = 72 / 2.54 * 0.1"

definition reportlab_A4 :: "real \<times> real" where
  "reportlab_A4 = (210 * reportlab_mm, 297 * reportlab_mm)"

definition demo_stringWidth :: "string \<Rightarrow> string \<Rightarrow> real \<Rightarrow> real" where
  "demo_stringWidth text font psize = real (length text) * psize / 2"

definition demo_pdf_bytes :: "canvas \<Rightarrow> string" where
  "demo_pdf_bytes c = ''%PDF-1.4 '' @ concat (drawn_strings (ops c))"

definition demo_pdf_open :: "string option list \<Rightarrow> string \<Rightarrow> exn + string option list" where
  \<comment> \<open>a page is represented by the text it yields; bytes without the PDF header do not parse\<close>
  "demo_pdf_open pages b =
     (if take 4 b = ''%PDF'' then Inr pages else Inl (OtherError ''PDFSyntaxError''))"

definition demo_extract_text :: "string option \<Rightarrow> exn + string option" where
  "demo_extract_text page = Inr page"

definition demo_jwt_decode :: "string \<Rightarrow> exn + (string \<rightharpoonup> string)" where
  \<comment> \<open>a token \<open>tok-NAME\<close> carries the subject \<open>NAME\<close>\<close>
  "demo_jwt_decode token =
     (if token = ''expired'' then Inl (JWTError ''Signature has expired.'')
      else if token = ''no-sub'' then Inr Map.empty
      else if take 4 token = ''tok-'' then Inr [''sub'' \<mapsto> drop 4 token]
      else Inl (JWTError ''Signature verification failed.''))"

definition demo_users_db :: users_db where
  \<comment> \<open>the module's table with one more account, a disabled one\<close>
  "demo_users_db =
     fake_users_db(''bob'' \<mapsto>
        \<lparr>username = ''bob'', full_name = None, disabled = Some True, hashed_password = ''x''\<rparr>)"

section \<open>Text extraction: the returned string\<close>

lemma py_isspace_NL: "py_isspace NL"
  by (simp add: py_isspace_def)

lemma py_strip_snoc_space: "py_isspace c \<Longrightarrow> py_strip (s @ [c]) = py_strip s"
proof (cases "\<forall>x\<in>set s. py_isspace x")
  case True
  assume c: "py_isspace c"
  from True have a: "dropWhile py_isspace s = []" by simp
  from True c have b: "dropWhile py_isspace (s @ [c]) = []" by simp
  show ?thesis unfolding py_strip_def a b ..
next
  case False
  assume c: "py_isspace c"
  from False obtain x where "x \<in> set s" "\<not> py_isspace x" by blast
  then have "dropWhile py_isspace (s @ [c]) = dropWhile py_isspace s @ [c]"
    by (rule dropWhile_append1)
  with c show ?thesis by (simp add: py_strip_def)
qed

lemma extract_loop_acc:
  "map extract_text pages = map Inr texts \<Longrightarrow>
   extract_loop extract_text pages acc =
     Inr (acc @ concat (map (\<lambda>t. t @ [NL]) (nonempty_texts texts)))"
proof (induction pages arbitrary: acc texts)
  case Nil
  then show ?case by simp
next
  case (Cons p ps)
  then obtain t ts where texts: "texts = t # ts" and p: "extract_text p = Inr t"
    and rest: "map extract_text ps = map Inr ts"
    by (cases texts) auto
  show ?case
    using Cons.IH [OF rest] p texts by (cases t) auto
qed

lemma concat_nl_join:
  "ts \<noteq> [] \<Longrightarrow> concat (map (\<lambda>t. t @ [NL]) ts) = py_join_nl ts @ [NL]"
  by (induction ts rule: py_join_nl.induct) auto

lemma strip_concat_nl:
  "py_strip (concat (map (\<lambda>t. t @ [NL]) ts)) = py_strip (py_join_nl ts)"
  by (cases "ts = []") (simp_all add: concat_nl_join py_strip_snoc_space py_isspace_NL)

lemma os_remove_written: "os_remove (write_file fs p b) p = Inr (fs(p := None))"
  by (simp add: os_remove_def write_file_def)

lemma extract_file_written:
  "extract_file pdf_open extract_text (write_file fs p b) p =
     (case pdf_open b of Inl e \<Rightarrow> Inl e | Inr pages \<Rightarrow> extract_loop extract_text pages [])"
  by (simp add: extract_file_def write_file_def)

lemma nonempty_texts_image_only:
  "\<forall>t\<in>set texts. t = None \<or> t = Some [] \<Longrightarrow> nonempty_texts texts = []"
  by (induction texts rule: nonempty_texts.induct) auto

lemma upload_pdf_v2_text:
  assumes "pdf_open file = Inr pages" and "map extract_text pages = map Inr texts"
  shows "fst (upload_pdf_v2 pdf_open extract_text uuid4 file fs) =
           Inr (JSONBody [(''extracted_text'', py_strip (py_join_nl (nonempty_texts texts)))])"
  using assms
  by (simp add: upload_pdf_v2_def Let_def extract_file_written os_remove_written
        extract_loop_acc strip_concat_nl)

lemma upload_pdf_v1_text:
  assumes "pdf_open file = Inr pages" and "map extract_text pages = map Inr texts"
  shows "fst (upload_pdf_v1 pdf_open extract_text uuid4 utcnow file current_user w) =
           Inr (JSONBody [(''extracted_text'', py_strip (py_join_nl (nonempty_texts texts)))])"
  using assms
  by (simp add: upload_pdf_v1_def Let_def extract_file_written os_remove_written
        extract_loop_acc strip_concat_nl)

text \<open>
  C5 (as amended). When the uploaded bytes parse and every page yields a text or nothing,
  both variants of \<open>upload_pdf\<close> return the non-empty page texts joined by newline, with
  the leading and trailing whitespace of the whole string removed by \<open>strip\<close>; when no
  page yields text the returned string is empty.
\<close>

theorem upload_returns_stripped_join:
  assumes "pdf_open file = Inr pages" and "map extract_text pages = map Inr texts"
  shows "fst (upload_pdf_v1 pdf_open extract_text uuid4 utcnow file current_user w) =
           Inr (JSONBody [(''extracted_text'', py_strip (py_join_nl (nonempty_texts texts)))]) \<and>
         fst (upload_pdf_v2 pdf_open extract_text uuid4 file fs) =
           Inr (JSONBody [(''extracted_text'', py_strip (py_join_nl (nonempty_texts texts)))]) \<and>
         ((\<forall>t\<in>set texts. t = None \<or> t = Some []) \<longrightarrow>
            fst (upload_pdf_v1 pdf_open extract_text uuid4 utcnow file current_user w) =
              Inr (JSONBody [(''extracted_text'', [])]) \<and>
            fst (upload_pdf_v2 pdf_open extract_text uuid4 file fs) =
              Inr (JSONBody [(''extracted_text'', [])]))"
proof -
  have image_only: "py_strip (py_join_nl (nonempty_texts texts)) = []"
    if "\<forall>t\<in>set texts. t = None \<or> t = Some []"
    using that by (simp add: nonempty_texts_image_only py_strip_def)
  have v1: "fst (upload_pdf_v1 pdf_open extract_text uuid4 utcnow file current_user w) =
      Inr (JSONBody [(''extracted_text'', py_strip (py_join_nl (nonempty_texts texts)))])"
    using assms by (rule upload_pdf_v1_text)
  have v2: "fst (upload_pdf_v2 pdf_open extract_text uuid4 file fs) =
      Inr (JSONBody [(''extracted_text'', py_strip (py_join_nl (nonempty_texts texts)))])"
    using assms by (rule upload_pdf_v2_text)
  show ?thesis
    by (simp add: v1 v2 image_only)
qed

text \<open>Two uploads: text pages around an image page, and a file without any text.\<close>

theorem upload_returns_stripped_join_witness:
  "fst (upload_pdf_v1 (demo_pdf_open [Some ''Hello'', None, Some ''World '']) demo_extract_text
          ''123e4567-e89b-42d3-a456-426614174000'' 1700000000 ''%PDF-1.4''
          \<lparr>username = ''admin'', full_name = None, disabled = None\<rparr> fresh_world) =
     Inr (JSONBody [(''extracted_text'', ''Hello'' @ [NL] @ ''World'')]) \<and>
   fst (upload_pdf_v2 (demo_pdf_open [None, Some []]) demo_extract_text
          ''123e4567-e89b-42d3-a456-426614174000'' ''%PDF-1.4'' (files fresh_world)) =
     Inr (JSONBody [(''extracted_text'', [])])"
proof -
  have parse: "demo_pdf_open ps ''%PDF-1.4'' = Inr ps" for ps
    by (simp add: demo_pdf_open_def)
  have texts: "map demo_extract_text ps = map Inr ps" for ps
    by (induction ps) (simp_all add: demo_extract_text_def)
  have blank: "\<forall>t\<in>set [None, Some []]. t = None \<or> t = Some ([]::string)"
    by simp
  have "py_strip (py_join_nl (nonempty_texts [Some ''Hello'', None, Some ''World ''])) =
          ''Hello'' @ [NL] @ ''World''"
    by (simp add: py_strip_def py_isspace_def)
  with upload_returns_stripped_join
         [of "demo_pdf_open [Some ''Hello'', None, Some ''World '']" "''%PDF-1.4''"
             "[Some ''Hello'', None, Some ''World '']" demo_extract_text
             "[Some ''Hello'', None, Some ''World '']", OF parse texts]
    upload_returns_stripped_join
         [of "demo_pdf_open [None, Some []]" "''%PDF-1.4''" "[None, Some []]"
             demo_extract_text "[None, Some []]", OF parse texts] blank
  show ?thesis by metis
qed

text \<open>
  The returned string is not always the plain join: a single page whose text is
  \<open>" a"\<close> is returned as \<open>"a"\<close>.
\<close>

theorem upload_plain_join_counterexample:
  "fst (upload_pdf_v2 (demo_pdf_open [Some '' a'']) demo_extract_text
          ''123e4567-e89b-42d3-a456-426614174000'' ''%PDF-1.4'' (files fresh_world)) =
     Inr (JSONBody [(''extracted_text'', ''a'')]) \<and>
   fst (upload_pdf_v2 (demo_pdf_open [Some '' a'']) demo_extract_text
          ''123e4567-e89b-42d3-a456-426614174000'' ''%PDF-1.4'' (files fresh_world)) \<noteq>
     Inr (JSONBody [(''extracted_text'', py_join_nl (nonempty_texts [Some '' a'']))])"
  by (simp add: upload_pdf_v2_def Let_def extract_file_written os_remove_written
        demo_pdf_open_def demo_extract_text_def py_strip_def py_isspace_def)

section \<open>Text extraction: the transient file\<close>

lemma write_file_same: "write_file fs p b p = Some (RegularFile b)"
  by (simp add: write_file_def)

lemma write_file_other: "q \<noteq> p \<Longrightarrow> write_file fs p b q = fs q"
  by (simp add: write_file_def)

lemma upload_pdf_v1_removes_temp:
  "files (snd (upload_pdf_v1 pdf_open extract_text uuid4 utcnow file current_user w))
     (''temp_'' @ uuid4 @ ''.pdf'') = None"
  by (simp add: upload_pdf_v1_def Let_def os_remove_written split: sum.splits)

lemma upload_pdf_v1_propagates:
  "pdf_open file = Inl e \<Longrightarrow>
   fst (upload_pdf_v1 pdf_open extract_text uuid4 utcnow file current_user w) = Inl e"
  by (simp add: upload_pdf_v1_def Let_def os_remove_written extract_file_written)

lemma upload_pdf_v2_removes_temp_on_success:
  "fst (upload_pdf_v2 pdf_open extract_text uuid4 file fs) = Inr r \<Longrightarrow>
   snd (upload_pdf_v2 pdf_open extract_text uuid4 file fs) (''temp_'' @ uuid4 @ ''.pdf'') = None"
  by (simp add: upload_pdf_v2_def Let_def os_remove_written split: sum.splits)

lemma upload_pdf_v2_keeps_temp_on_error:
  "extract_file pdf_open extract_text (write_file fs (''temp_'' @ uuid4 @ ''.pdf'') file)
     (''temp_'' @ uuid4 @ ''.pdf'') = Inl e \<Longrightarrow>
   upload_pdf_v2 pdf_open extract_text uuid4 file fs =
     (Inl e, write_file fs (''temp_'' @ uuid4 @ ''.pdf'') file)"
  by (simp add: upload_pdf_v2_def Let_def)

text \<open>
  C2. In variant 1 the transient file is gone after every upload, also when the PDF library
  raises (\<open>upload_pdf_v1_removes_temp\<close>, \<open>upload_pdf_v1_propagates\<close>). Variant 2 has no
  \<open>try ... finally\<close>: an upload of bytes that do not parse ends with the exception and leaves
  the transient file behind.
\<close>

theorem upload_v2_leaves_temp_file_on_error:
  "fst (upload_pdf_v2 (demo_pdf_open []) demo_extract_text
          ''123e4567-e89b-42d3-a456-426614174000'' ''not a pdf'' (files fresh_world)) =
     Inl (OtherError ''PDFSyntaxError'') \<and>
   snd (upload_pdf_v2 (demo_pdf_open []) demo_extract_text
          ''123e4567-e89b-42d3-a456-426614174000'' ''not a pdf'' (files fresh_world))
     ''temp_123e4567-e89b-42d3-a456-426614174000.pdf'' = Some (RegularFile ''not a pdf'') \<and>
   files (snd (upload_pdf_v1 (demo_pdf_open []) demo_extract_text
          ''123e4567-e89b-42d3-a456-426614174000'' 1700000000 ''not a pdf''
          \<lparr>username = ''admin'', full_name = None, disabled = None\<rparr> fresh_world))
     ''temp_123e4567-e89b-42d3-a456-426614174000.pdf'' = None"
  by (simp add: upload_pdf_v2_def upload_pdf_v1_def Let_def extract_file_written
        os_remove_written demo_pdf_open_def write_file_same)

section \<open>The audit log\<close>

lemma complaint_loop_filename:
  "canvas_filename (fst (complaint_loop h segs (c, y))) = canvas_filename c"
  by (induction segs arbitrary: c y) (simp_all add: showPage_def drawString_def)

lemma fir_header_v1_filename:
  "canvas_filename (fst (fir_header_v1 A4 fn fir_no victim_name fraud_amount)) = fn"
  by (cases A4) (simp add: fir_header_v1_def Let_def Canvas_def setFont_def drawString_def)

lemma fir_canvas_v1_filename:
  "canvas_filename (fir_canvas_v1 A4 fn fir_no victim_name fraud_amount complaint_text) = fn"
  unfolding fir_canvas_v1_def
  by (metis complaint_loop_filename fir_header_v1_filename prod.collapse)

lemma upt_7: "[0..<7] = [0, 1, 2, 3, 4, 5, 6::nat]"
  by code_simp

lemma fir_canvas_v2_filename:
  "canvas_filename (fir_canvas_v2 A4 mm stringWidth fn fir_no fir_date section' victim_name
     fraud_amount complaint_text) = fn"
  by (cases A4) (simp add: fir_canvas_v2_def Let_def Canvas_def setFont_def drawString_def
        rect_def setStrokeColor_def line_def upt_7)

lemma upload_pdf_v1_logs_one_row:
  assumes "upload_pdf_v1 pdf_open extract_text uuid4 utcnow file current_user w = (Inr r, w')"
  shows "audit_logs w' =
           audit_logs w @
             [\<lparr>audit_id = next_id (audit_logs w), audit_username = username current_user,
               audit_action = ''Uploaded PDF and extracted text'', audit_timestamp = utcnow\<rparr>]"
  using assms
  by (auto simp: upload_pdf_v1_def Let_def os_remove_written log_action_def split: sum.splits)

lemma upload_pdf_v1_error_logs_nothing:
  assumes "upload_pdf_v1 pdf_open extract_text uuid4 utcnow file current_user w = (Inl e, w')"
  shows "audit_logs w' = audit_logs w"
  using assms
  by (auto simp: upload_pdf_v1_def Let_def os_remove_written split: sum.splits)

lemma generate_fir_v1_logs_one_row:
  assumes "generate_fir_v1 A4 pdf_bytes uuid4 utcnow fir_no victim_name fraud_amount
             complaint_text current_user w = (r, w')"
  shows "audit_logs w' =
           audit_logs w @
             [\<lparr>audit_id = next_id (audit_logs w), audit_username = username current_user,
               audit_action = ''Generated FIR PDF '' @ OUTPUT_DIR @ ''/FIR_'' @ uuid4 @ ''.pdf'',
               audit_timestamp = utcnow\<rparr>]"
  using assms
  by (auto simp: generate_fir_v1_def Let_def log_action_def)

lemma download_file_v1_logs_nothing:
  "snd (download_file_v1 name current_user w) = w"
  by (simp add: download_file_v1_def Let_def)

lemma protected_failure_logs_nothing:
  "depends_current_active_user db jwt_decode token = Inl e \<Longrightarrow>
   protected db jwt_decode token handler w = (Inl e, w)"
  by (simp add: protected_def)

lemma admin_token_accepted:
  "depends_current_active_user fake_users_db demo_jwt_decode ''tok-admin'' =
     Inr \<lparr>username = ''admin'', full_name = Some ''Admin User'', disabled = Some False,
          hashed_password = ''$2b$12$KIXQ1q6v6q6q6q6q6q6q6u6q6q6q6q6q6q6q6q6q6q6q6q6q6q6q6''\<rparr>"
  by (simp add: depends_current_active_user_def get_current_user_def get_user_def
        get_current_active_user_def demo_jwt_decode_def fake_users_db_def)

text \<open>
  C1. Upload and generation append one row with the acting user's name
  (\<open>upload_pdf_v1_logs_one_row\<close>, \<open>generate_fir_v1_logs_one_row\<close>); the download handler
  appends none. After one generation and one successful download of the generated file by
  \<open>admin\<close>, the table holds the single row of the generation.
\<close>

theorem download_v1_appends_no_audit_row:
  "fst (protected fake_users_db demo_jwt_decode ''tok-admin''
          (download_file_v1 ''FIR_123e4567-e89b-42d3-a456-426614174000.pdf'')
          (snd (protected fake_users_db demo_jwt_decode ''tok-admin''
                  (generate_fir_v1 reportlab_A4 demo_pdf_bytes
                     ''123e4567-e89b-42d3-a456-426614174000'' 1700000000
                     ''12/2024'' ''Asha'' ''5000'' ''lost money'')
                  fresh_world))) =
     Inr (FileResponse ''generated_pdfs/FIR_123e4567-e89b-42d3-a456-426614174000.pdf''
            ''FIR_123e4567-e89b-42d3-a456-426614174000.pdf'' ''application/pdf'') \<and>
   audit_logs (snd (protected fake_users_db demo_jwt_decode ''tok-admin''
          (download_file_v1 ''FIR_123e4567-e89b-42d3-a456-426614174000.pdf'')
          (snd (protected fake_users_db demo_jwt_decode ''tok-admin''
                  (generate_fir_v1 reportlab_A4 demo_pdf_bytes
                     ''123e4567-e89b-42d3-a456-426614174000'' 1700000000
                     ''12/2024'' ''Asha'' ''5000'' ''lost money'')
                  fresh_world)))) =
     [\<lparr>audit_id = 1, audit_username = ''admin'',
       audit_action =
         ''Generated FIR PDF generated_pdfs/FIR_123e4567-e89b-42d3-a456-426614174000.pdf'',
       audit_timestamp = 1700000000\<rparr>]"
  by (simp add: protected_def admin_token_accepted generate_fir_v1_def download_file_v1_def
        Let_def save_def write_file_def os_path_exists_def os_path_join_def OUTPUT_DIR_def
        log_action_def next_id_def fresh_world_def fir_canvas_v1_filename)

section \<open>Document generation: the complaint text\<close>

lemma complaint_loop_ops:
  "ops (fst (complaint_loop h segs (c, y))) = ops c @ loop_ops h segs y"
  by (induction segs arbitrary: c y) (simp_all add: showPage_def drawString_def)

lemma complaint_loop_append:
  "complaint_loop h (xs @ ys) (c, y) = complaint_loop h ys (complaint_loop h xs (c, y))"
  by (induction xs arbitrary: c y) (simp_all add: Let_def)


lemma fir_header_v1_cursor:
  "snd (fir_header_v1 A4 fn fir_no victim_name fraud_amount) = snd A4 - 160"
  by (cases A4) (simp add: fir_header_v1_def Let_def)

lemma fir_header_v1_ops:
  "ops (fst (fir_header_v1 A4 fn fir_no victim_name fraud_amount)) =
     [SetFont ''Helvetica-Bold'' 16, DrawString 50 (snd A4 - 50) (''FIR No.: '' @ fir_no),
      SetFont ''Helvetica'' 12, DrawString 50 (snd A4 - 80) (''Victim Name: '' @ victim_name),
      DrawString 50 (snd A4 - 100) (''Fraud Amount: '' @ fraud_amount),
      SetFont ''Helvetica-Bold'' 14, DrawString 50 (snd A4 - 140) ''Complaint Details:'',
      SetFont ''Helvetica'' 11]"
  by (cases A4) (simp add: fir_header_v1_def Let_def Canvas_def setFont_def drawString_def)

lemma fir_canvas_v1_ops:
  "ops (fir_canvas_v1 A4 fn fir_no victim_name fraud_amount complaint_text) =
     ops (fst (fir_header_v1 A4 fn fir_no victim_name fraud_amount)) @
     loop_ops (snd A4) (py_split_nl complaint_text) (snd A4 - 160)"
  unfolding fir_canvas_v1_def
  by (metis complaint_loop_ops fir_header_v1_cursor prod.collapse)

lemma length_py_split_nl: "length (py_split_nl s) = Suc (count_list s NL)"
  by (induction s) (auto split: list.splits)


lemma drawn_strings_append: "drawn_strings (xs @ ys) = drawn_strings xs @ drawn_strings ys"
  by (induction xs rule: drawn_strings.induct) simp_all

lemma drawn_strings_loop_ops: "drawn_strings (loop_ops h segs y) = map py_strip segs"
  by (induction segs arbitrary: y) simp_all

lemma fir_canvas_v1_drawn_strings:
  "drawn_strings (ops (fir_canvas_v1 A4 fn fir_no victim_name fraud_amount complaint_text)) =
     [''FIR No.: '' @ fir_no, ''Victim Name: '' @ victim_name, ''Fraud Amount: '' @ fraud_amount,
      ''Complaint Details:''] @ map py_strip (py_split_nl complaint_text)"
  by (simp add: fir_canvas_v1_ops fir_header_v1_ops drawn_strings_append drawn_strings_loop_ops)

lemma fir_canvas_v1_draws_every_segment:
  "length (drawn_strings (ops (fir_canvas_v1 A4 fn fir_no victim_name fraud_amount
      complaint_text))) = count_list complaint_text NL + 5"
  by (simp add: fir_canvas_v1_drawn_strings length_py_split_nl)

lemma fir_canvas_v2_drawn_strings:
  "drawn_strings (ops (fir_canvas_v2 A4 mm stringWidth fn fir_no fir_date section' victim_name
       fraud_amount complaint_text)) =
     [''FIR no.: '' @ fir_no @ '' dated '' @ fir_date, ''Under Section: '' @ section',
      ''Victim'' @ [CHR 0xE2, CHR 0x80, CHR 0x99] @ ''s Name: '' @ victim_name,
      ''Total Fraud Amount: '' @ fraud_amount @ '' /- INR'', ''Notes:-'', ''Flow Chart'',
      ''Flow chart diagram goes here'']"
  by (cases A4) (simp add: fir_canvas_v2_def Let_def Canvas_def setFont_def drawString_def
        line_def rect_def setStrokeColor_def upt_7)

lemma fir_canvas_v2_ignores_complaint_text:
  "fir_canvas_v2 A4 mm stringWidth fn fir_no fir_date section' victim_name fraud_amount
     complaint_text =
   fir_canvas_v2 A4 mm stringWidth fn fir_no fir_date section' victim_name fraud_amount []"
  by (simp add: fir_canvas_v2_def)

text \<open>
  C3. Variant 1 draws every segment of the complaint text, one \<open>drawString\<close> per segment
  (\<open>fir_canvas_v1_drawn_strings\<close>, \<open>fir_canvas_v1_draws_every_segment\<close>). Variant 2 takes
  \<open>complaint_text\<close> and never draws it: for a complaint of eight lines (seven newlines) the
  canvas holds the seven fixed strings of the template and none of the eight lines.
\<close>

theorem generate_v2_draws_no_complaint_line:
  "py_split_nl (''l1'' @ [NL] @ ''l2'' @ [NL] @ ''l3'' @ [NL] @ ''l4'' @ [NL] @ ''l5'' @ [NL] @
                 ''l6'' @ [NL] @ ''l7'' @ [NL] @ ''l8'') =
     [''l1'', ''l2'', ''l3'', ''l4'', ''l5'', ''l6'', ''l7'', ''l8''] \<and>
   drawn_strings (ops (fir_canvas_v2 reportlab_A4 reportlab_mm demo_stringWidth
       ''generated_pdfs/FIR_123e4567-e89b-42d3-a456-426614174000.pdf''
       ''12/2024'' ''2024-03-01'' ''420'' ''Asha'' ''5000''
       (''l1'' @ [NL] @ ''l2'' @ [NL] @ ''l3'' @ [NL] @ ''l4'' @ [NL] @ ''l5'' @ [NL] @
        ''l6'' @ [NL] @ ''l7'' @ [NL] @ ''l8''))) =
     [''FIR no.: 12/2024 dated 2024-03-01'', ''Under Section: 420'',
      ''Victim'' @ [CHR 0xE2, CHR 0x80, CHR 0x99] @ ''s Name: Asha'',
      ''Total Fraud Amount: 5000 /- INR'', ''Notes:-'', ''Flow Chart'',
      ''Flow chart diagram goes here'']"
  by (simp add: fir_canvas_v2_drawn_strings)

section \<open>Document generation: pagination\<close>

lemma loop_ops_margins:
  "100 \<le> h \<Longrightarrow> y \<le> h - 50 \<Longrightarrow> DrawString x y' t \<in> set (loop_ops h segs y) \<Longrightarrow>
   50 \<le> y' \<and> y' \<le> h - 50"
proof (induction segs arbitrary: y)
  case Nil
  then show ?case by simp
next
  case (Cons seg segs)
  show ?case
  proof (cases "y < 50")
    case True
    with Cons.prems have "DrawString x y' t = DrawString 50 (h - 50) (py_strip seg) \<or>
        DrawString x y' t \<in> set (loop_ops h segs (h - 50 - 15))" by simp
    then show ?thesis
    proof
      assume "DrawString x y' t = DrawString 50 (h - 50) (py_strip seg)"
      with Cons.prems(1) show ?thesis by simp
    next
      assume "DrawString x y' t \<in> set (loop_ops h segs (h - 50 - 15))"
      with Cons.IH [of "h - 50 - 15"] Cons.prems(1) show ?thesis by simp
    qed
  next
    case False
    with Cons.prems have "DrawString x y' t = DrawString 50 y (py_strip seg) \<or>
        DrawString x y' t \<in> set (loop_ops h segs (y - 15))" by simp
    then show ?thesis
    proof
      assume "DrawString x y' t = DrawString 50 y (py_strip seg)"
      with False Cons.prems(2) show ?thesis by simp
    next
      assume "DrawString x y' t \<in> set (loop_ops h segs (y - 15))"
      with Cons.IH [of "y - 15"] Cons.prems(1,2) show ?thesis by simp
    qed
  qed
qed

lemma complaint_line_drawn_in_place:
  assumes "py_split_nl complaint_text = pre @ seg # post"
    and "complaint_loop (snd A4) pre (fir_header_v1 A4 fn fir_no victim_name fraud_amount) = (c, y)"
    and "\<not> y < 50"
  shows "\<exists>rest. ops (fir_canvas_v1 A4 fn fir_no victim_name fraud_amount complaint_text) =
           ops c @ [DrawString 50 y (py_strip seg)] @ rest"
proof -
  obtain c0 y0 where h: "fir_header_v1 A4 fn fir_no victim_name fraud_amount = (c0, y0)"
    by (cases "fir_header_v1 A4 fn fir_no victim_name fraud_amount")
  have "fir_canvas_v1 A4 fn fir_no victim_name fraud_amount complaint_text =
          fst (complaint_loop (snd A4) (seg # post) (c, y))"
    using assms(1,2) h by (simp add: fir_canvas_v1_def complaint_loop_append)
  then show ?thesis
    using assms(3) by (simp add: complaint_loop_ops showPage_def drawString_def)
qed



text \<open>
  C10. On a page at least 100 high (A4 is about 841.9 high), every line of the complaint
  is drawn at a height \<open>y\<close> with \<open>50 \<le> y \<le> height - 50\<close>: \<open>drawn\<close> is what the complaint
  loop adds to the canvas after the header.
\<close>

theorem complaint_lines_within_margins:
  assumes "100 \<le> snd A4"
    and "ops (fir_canvas_v1 A4 fn fir_no victim_name fraud_amount complaint_text) =
         ops (fst (fir_header_v1 A4 fn fir_no victim_name fraud_amount)) @ drawn"
    and "DrawString x y t \<in> set drawn"
  shows "50 \<le> y \<and> y \<le> snd A4 - 50"
proof -
  from assms(2) have "drawn = loop_ops (snd A4) (py_split_nl complaint_text) (snd A4 - 160)"
    by (simp add: fir_canvas_v1_ops)
  with assms(3) loop_ops_margins [OF assms(1), of "snd A4 - 160"] show ?thesis by simp
qed

text \<open>A complaint of two lines on an A4 page; the second line is drawn 175 below the top.\<close>

theorem complaint_lines_within_margins_witness:
  "ops (fir_canvas_v1 reportlab_A4 ''generated_pdfs/FIR_x.pdf'' ''12/2024'' ''Asha'' ''5000''
          ('' first'' @ [NL] @ ''second '')) =
     ops (fst (fir_header_v1 reportlab_A4 ''generated_pdfs/FIR_x.pdf'' ''12/2024'' ''Asha''
                 ''5000'')) @
     [DrawString 50 (snd reportlab_A4 - 160) ''first'',
      DrawString 50 (snd reportlab_A4 - 175) ''second''] \<and>
   50 \<le> snd reportlab_A4 - 175 \<and> snd reportlab_A4 - 175 \<le> snd reportlab_A4 - 50"
proof -
  let ?drawn = "[DrawString 50 (snd reportlab_A4 - 160) ''first'',
                 DrawString 50 (snd reportlab_A4 - 175) ''second'']"
  have page: "100 \<le> snd reportlab_A4"
    by (simp add: reportlab_A4_def reportlab_mm_def)
  have high: "\<not> snd reportlab_A4 - 160 < 50" "\<not> snd reportlab_A4 - 175 < 50"
    by (simp_all add: reportlab_A4_def reportlab_mm_def)
  have canvas: "ops (fir_canvas_v1 reportlab_A4 ''generated_pdfs/FIR_x.pdf'' ''12/2024''
                  ''Asha'' ''5000'' ('' first'' @ [NL] @ ''second '')) =
      ops (fst (fir_header_v1 reportlab_A4 ''generated_pdfs/FIR_x.pdf'' ''12/2024'' ''Asha''
                  ''5000'')) @ ?drawn"
    using high by (simp add: fir_canvas_v1_ops py_strip_def py_isspace_def)
  have member: "DrawString 50 (snd reportlab_A4 - 175) ''second'' \<in> set ?drawn"
    by simp
  from canvas complaint_lines_within_margins [OF page canvas member] show ?thesis
    by (rule conjI)
qed

section \<open>Token validation\<close>

text \<open>
  C4 (as amended). On a protected call of variant 1, a token that the JWT library rejects
  (bad signature, expired), a payload without subject and a subject that is not in the user
  table all give the same error, \<open>credentials_exception\<close> (401); a disabled account gives
  another one, 400 \<open>Inactive user\<close>; otherwise the user is returned.
\<close>

theorem token_validation_outcomes:
  "(jwt_decode token = Inl (JWTError m) \<longrightarrow>
      depends_current_active_user db jwt_decode token = Inl credentials_exception) \<and>
   (jwt_decode token = Inr payload \<and> payload ''sub'' = None \<longrightarrow>
      depends_current_active_user db jwt_decode token = Inl credentials_exception) \<and>
   (jwt_decode token = Inr payload \<and> payload ''sub'' = Some name \<and> db name = None \<longrightarrow>
      depends_current_active_user db jwt_decode token = Inl credentials_exception) \<and>
   (jwt_decode token = Inr payload \<and> payload ''sub'' = Some name \<and> db name = Some user \<and>
    disabled user = Some True \<longrightarrow>
      depends_current_active_user db jwt_decode token =
        Inl (HTTPException 400 ''Inactive user'' [])) \<and>
   (jwt_decode token = Inr payload \<and> payload ''sub'' = Some name \<and> db name = Some user \<and>
    disabled user \<noteq> Some True \<longrightarrow>
      depends_current_active_user db jwt_decode token = Inr user)"
  by (simp add: depends_current_active_user_def get_current_user_def get_user_def
        get_current_active_user_def)

text \<open>
  An expired token, a token without subject, an unknown subject, the disabled account
  \<open>bob\<close> and the account \<open>admin\<close>.
\<close>

theorem token_validation_outcomes_witness:
  "depends_current_active_user demo_users_db demo_jwt_decode ''expired'' =
     Inl credentials_exception \<and>
   depends_current_active_user demo_users_db demo_jwt_decode ''no-sub'' =
     Inl credentials_exception \<and>
   depends_current_active_user demo_users_db demo_jwt_decode ''tok-mallory'' =
     Inl credentials_exception \<and>
   depends_current_active_user demo_users_db demo_jwt_decode ''tok-bob'' =
     Inl (HTTPException 400 ''Inactive user'' []) \<and>
   depends_current_active_user demo_users_db demo_jwt_decode ''tok-admin'' =
     Inr \<lparr>username = ''admin'', full_name = Some ''Admin User'', disabled = Some False,
          hashed_password = ''$2b$12$KIXQ1q6v6q6q6q6q6q6q6u6q6q6q6q6q6q6q6q6q6q6q6q6q6q6q6''\<rparr>"
proof -
  let ?bob = "\<lparr>username = ''bob'', full_name = None, disabled = Some True,
                hashed_password = ''x''\<rparr>"
  let ?admin = "\<lparr>username = ''admin'', full_name = Some ''Admin User'', disabled = Some False,
       hashed_password = ''$2b$12$KIXQ1q6v6q6q6q6q6q6q6u6q6q6q6q6q6q6q6q6q6q6q6q6q6q6q6''\<rparr>"
  have expired: "demo_jwt_decode ''expired'' = Inl (JWTError ''Signature has expired.'')"
    by (simp add: demo_jwt_decode_def)
  have no_sub: "demo_jwt_decode ''no-sub'' = Inr Map.empty \<and> Map.empty ''sub'' = None"
    by (simp add: demo_jwt_decode_def)
  have mallory: "demo_jwt_decode ''tok-mallory'' = Inr [''sub'' \<mapsto> ''mallory''] \<and>
      [''sub'' \<mapsto> ''mallory''] ''sub'' = Some ''mallory'' \<and> demo_users_db ''mallory'' = None"
    by (simp add: demo_jwt_decode_def demo_users_db_def fake_users_db_def)
  have bob: "demo_jwt_decode ''tok-bob'' = Inr [''sub'' \<mapsto> ''bob''] \<and>
      [''sub'' \<mapsto> ''bob''] ''sub'' = Some ''bob'' \<and> demo_users_db ''bob'' = Some ?bob \<and>
      disabled ?bob = Some True"
    by (simp add: demo_jwt_decode_def demo_users_db_def)
  have admin: "demo_jwt_decode ''tok-admin'' = Inr [''sub'' \<mapsto> ''admin''] \<and>
      [''sub'' \<mapsto> ''admin''] ''sub'' = Some ''admin'' \<and> demo_users_db ''admin'' = Some ?admin \<and>
      disabled ?admin \<noteq> Some True"
    by (simp add: demo_jwt_decode_def demo_users_db_def fake_users_db_def)
  note t = token_validation_outcomes [where db = demo_users_db and jwt_decode = demo_jwt_decode]
  have 1: "depends_current_active_user demo_users_db demo_jwt_decode ''expired'' =
      Inl credentials_exception"
    using t [of "''expired''" "''Signature has expired.''"] expired by blast
  have 2: "depends_current_active_user demo_users_db demo_jwt_decode ''no-sub'' =
      Inl credentials_exception"
    using t [of "''no-sub''" _ Map.empty] no_sub by blast
  have 3: "depends_current_active_user demo_users_db demo_jwt_decode ''tok-mallory'' =
      Inl credentials_exception"
    using t [of "''tok-mallory''" _ "[''sub'' \<mapsto> ''mallory'']" "''mallory''"] mallory by blast
  have 4: "depends_current_active_user demo_users_db demo_jwt_decode ''tok-bob'' =
      Inl (HTTPException 400 ''Inactive user'' [])"
    using t [of "''tok-bob''" _ "[''sub'' \<mapsto> ''bob'']" "''bob''" ?bob] bob by blast
  have 5: "depends_current_active_user demo_users_db demo_jwt_decode ''tok-admin'' = Inr ?admin"
    using t [of "''tok-admin''" _ "[''sub'' \<mapsto> ''admin'']" "''admin''" ?admin] admin by blast
  from 1 2 3 4 5 show ?thesis by blast
qed

text \<open>
  A disabled account is not answered with the 401 credentials error: the dependency
  raises 400 \<open>Inactive user\<close>.
\<close>

theorem disabled_account_counterexample:
  "get_current_active_user \<lparr>username = ''bob'', full_name = None, disabled = Some True\<rparr> =
     Inl (HTTPException 400 ''Inactive user'' []) \<and>
   get_current_active_user \<lparr>username = ''bob'', full_name = None, disabled = Some True\<rparr> \<noteq>
     Inl credentials_exception \<and>
   depends_current_active_user demo_users_db demo_jwt_decode ''tok-bob'' \<noteq>
     Inl credentials_exception"
  by (simp add: get_current_active_user_def credentials_exception_def
        depends_current_active_user_def get_current_user_def get_user_def
        demo_jwt_decode_def demo_users_db_def)

section \<open>Download\<close>

lemma os_path_join_OUTPUT_DIR:
  "os_path_join OUTPUT_DIR name =
     (if take 1 name = ''/'' then name else ''generated_pdfs/'' @ name)"
  by (simp add: os_path_join_def OUTPUT_DIR_def)

lemma download_file_or_nothing:
  "(fs (os_path_join OUTPUT_DIR name) = Some (RegularFile b) \<longrightarrow>
      download_file_v2 name fs =
        Inr (FileResponse (os_path_join OUTPUT_DIR name) name ''application/pdf'') \<and>
      file_response_content fs (download_file_v2 name fs) = Some b \<and>
      download_file_v1 name current_user (w\<lparr>files := fs\<rparr>) =
        (Inr (FileResponse (os_path_join OUTPUT_DIR name) name ''application/pdf''),
         w\<lparr>files := fs\<rparr>)) \<and>
   (\<not> os_path_exists fs (os_path_join OUTPUT_DIR name) \<longrightarrow>
      download_file_v2 name fs = Inr (JSONBody [(''error'', ''File not found'')]) \<and>
      download_file_v1 name current_user (w\<lparr>files := fs\<rparr>) =
        (Inr (JSONBody [(''error'', ''File not found'')]), w\<lparr>files := fs\<rparr>))"
  by (simp add: download_file_v2_def download_file_v1_def Let_def os_path_exists_def
        file_response_content_def)

lemma download_directory:
  assumes "fs (os_path_join OUTPUT_DIR name) = Some Directory"
  shows "download_file_v2 name fs =
           Inr (FileResponse (os_path_join OUTPUT_DIR name) name ''application/pdf'')"
    and "file_response_content fs (download_file_v2 name fs) = None"
    and "download_file_v1 name current_user (w\<lparr>files := fs\<rparr>) =
           (Inr (FileResponse (os_path_join OUTPUT_DIR name) name ''application/pdf''),
            w\<lparr>files := fs\<rparr>)"
  using assms
  by (simp_all add: download_file_v2_def download_file_v1_def Let_def os_path_exists_def
        file_response_content_def)

text \<open>
  C7. With a regular file at the path that joins the output directory and the name, both
  variants return a \<open>FileResponse\<close> with media type \<open>application/pdf\<close> that streams its bytes,
  and with nothing at that path they return the body \<open>{"error": "File not found"}\<close> as an
  ordinary result (\<open>download_file_or_nothing\<close>). The handlers test \<open>os.path.exists\<close>, which
  a directory passes as well (\<open>download_directory\<close>): for the name \<open>..\<close>, right after import,
  no file of that name is in the output directory, and yet both variants return, instead of
  the not-found body, a \<open>FileResponse\<close> for the directory \<open>generated_pdfs/..\<close>, for which
  there are no bytes to stream.
\<close>

theorem download_serves_directory:
  "files fresh_world ''generated_pdfs/..'' = Some Directory \<and>
   download_file_v2 ''..'' (files fresh_world) =
     Inr (FileResponse ''generated_pdfs/..'' ''..'' ''application/pdf'') \<and>
   file_response_content (files fresh_world) (download_file_v2 ''..'' (files fresh_world)) =
     None \<and>
   fst (protected fake_users_db demo_jwt_decode ''tok-admin'' (download_file_v1 ''..'')
          fresh_world) =
     Inr (FileResponse ''generated_pdfs/..'' ''..'' ''application/pdf'') \<and>
   file_response_content (files fresh_world)
     (fst (protected fake_users_db demo_jwt_decode ''tok-admin'' (download_file_v1 ''..'')
             fresh_world)) = None"
  by (simp add: protected_def admin_token_accepted download_file_v2_def download_file_v1_def
        Let_def os_path_exists_def os_path_join_def file_response_content_def
        fresh_world_def OUTPUT_DIR_def)

text \<open>
  C9. In both variants the path that is tested and served is the output directory, a
  slash and the file name exactly as the caller gave it, whatever segments the name has;
  a name that starts with a slash is used alone, without the output directory. No name is
  rejected.
\<close>

theorem download_path_is_plain_join:
  assumes "p = (if take 1 name = ''/'' then name else ''generated_pdfs/'' @ name)"
  shows "os_path_join OUTPUT_DIR name = p \<and>
         download_file_v2 name fs =
           (if fs p = None then Inr (JSONBody [(''error'', ''File not found'')])
            else Inr (FileResponse p name ''application/pdf'')) \<and>
         fst (download_file_v1 name current_user (w\<lparr>files := fs\<rparr>)) =
           (if fs p = None then Inr (JSONBody [(''error'', ''File not found'')])
            else Inr (FileResponse p name ''application/pdf''))"
  using assms
  by (simp add: download_file_v2_def download_file_v1_def Let_def os_path_exists_def
        os_path_join_OUTPUT_DIR)

text \<open>A name with a parent-directory segment, and an absolute name.\<close>

theorem download_path_is_plain_join_witness:
  "download_file_v2 ''../audit.db''
     ((files fresh_world)(''generated_pdfs/../audit.db'' \<mapsto> RegularFile ''SQLite'')) =
     Inr (FileResponse ''generated_pdfs/../audit.db'' ''../audit.db'' ''application/pdf'') \<and>
   download_file_v2 ''/etc/passwd''
     ((files fresh_world)(''/etc/passwd'' \<mapsto> RegularFile ''root:x:0:0'')) =
     Inr (FileResponse ''/etc/passwd'' ''/etc/passwd'' ''application/pdf'')"
proof -
  have rel: "''generated_pdfs/../audit.db'' =
      (if take 1 ''../audit.db'' = ''/'' then ''../audit.db''
       else ''generated_pdfs/'' @ ''../audit.db'')"
    by simp
  have abs: "''/etc/passwd'' =
      (if take 1 ''/etc/passwd'' = ''/'' then ''/etc/passwd''
       else ''generated_pdfs/'' @ ''/etc/passwd'')"
    by simp
  from download_path_is_plain_join [OF rel,
      of "(files fresh_world)(''generated_pdfs/../audit.db'' \<mapsto> RegularFile ''SQLite'')"
         "\<lparr>username = ''admin'', full_name = None, disabled = None\<rparr>" fresh_world]
  have 1: "download_file_v2 ''../audit.db''
     ((files fresh_world)(''generated_pdfs/../audit.db'' \<mapsto> RegularFile ''SQLite'')) =
     Inr (FileResponse ''generated_pdfs/../audit.db'' ''../audit.db'' ''application/pdf'')"
    by simp
  from download_path_is_plain_join [OF abs,
      of "(files fresh_world)(''/etc/passwd'' \<mapsto> RegularFile ''root:x:0:0'')"
         "\<lparr>username = ''admin'', full_name = None, disabled = None\<rparr>" fresh_world]
  have 2: "download_file_v2 ''/etc/passwd''
     ((files fresh_world)(''/etc/passwd'' \<mapsto> RegularFile ''root:x:0:0'')) =
     Inr (FileResponse ''/etc/passwd'' ''/etc/passwd'' ''application/pdf'')"
    by simp
  from 1 2 show ?thesis by (rule conjI)
qed

section \<open>Generation, then download\<close>

lemma is_uuid_str_no_slash: "is_uuid_str u \<Longrightarrow> CHR ''/'' \<notin> set u"
  by (auto simp: is_uuid_str_def list_all_iff)

lemma os_path_basename_after_slash:
  "CHR ''/'' \<notin> set b \<Longrightarrow> os_path_basename (a @ CHR ''/'' # b) = b"
proof -
  assume "CHR ''/'' \<notin> set b"
  then have "takeWhile (\<lambda>c. c \<noteq> CHR ''/'') (rev b @ CHR ''/'' # rev a) = rev b"
    by (auto simp: takeWhile_tail takeWhile_eq_all_conv)
  then show ?thesis
    by (simp add: os_path_basename_def)
qed

lemma fir_name_no_slash:
  "is_uuid_str u \<Longrightarrow> CHR ''/'' \<notin> set (''FIR_'' @ u @ ''.pdf'')"
  using is_uuid_str_no_slash [of u] by simp

lemma basename_output_filename:
  "is_uuid_str u \<Longrightarrow> os_path_basename (OUTPUT_DIR @ ''/FIR_'' @ u @ ''.pdf'') = ''FIR_'' @ u @ ''.pdf''"
  using os_path_basename_after_slash [OF fir_name_no_slash, of u OUTPUT_DIR] by simp

lemma basename_download_link:
  "is_uuid_str u \<Longrightarrow> os_path_basename (''/download/FIR_'' @ u @ ''.pdf'') = ''FIR_'' @ u @ ''.pdf''"
  using os_path_basename_after_slash [OF fir_name_no_slash, of u "''/download''"] by simp

text \<open>
  C8. After a call of \<open>generate_fir\<close> (either variant) whose file name was made from a
  UUID string: the returned link is \<open>/download/FIR_<uuid>.pdf\<close>, the generator has written
  the bytes of its canvas to \<open>generated_pdfs/FIR_<uuid>.pdf\<close>, and \<open>download_file\<close>, called
  in the resulting state with the base name of the link, returns a \<open>FileResponse\<close> that
  streams exactly these bytes.
\<close>

theorem generate_then_download_roundtrip:
  assumes "is_uuid_str uuid4"
    and "generate_fir_v1 A4 pdf_bytes uuid4 utcnow fir_no victim_name fraud_amount
           complaint_text current_user w = (r1, w1)"
    and "generate_fir_v2 A4 mm stringWidth pdf_bytes uuid4 fir_no fir_date section'
           victim_name fraud_amount complaint_text fs = (r2, fs2)"
  shows "r1 = Inr (JSONBody [(''download_link'', ''/download/FIR_'' @ uuid4 @ ''.pdf'')]) \<and>
         files w1 (''generated_pdfs/FIR_'' @ uuid4 @ ''.pdf'') =
           Some (RegularFile (pdf_bytes (fir_canvas_v1 A4 (''generated_pdfs/FIR_'' @ uuid4 @ ''.pdf'')
                   fir_no victim_name fraud_amount complaint_text))) \<and>
         file_response_content (files w1)
             (fst (download_file_v1 (os_path_basename (''/download/FIR_'' @ uuid4 @ ''.pdf''))
                     reader w1)) =
           Some (pdf_bytes (fir_canvas_v1 A4 (''generated_pdfs/FIR_'' @ uuid4 @ ''.pdf'')
                   fir_no victim_name fraud_amount complaint_text)) \<and>
         r2 = Inr (JSONBody [(''download_link'', ''/download/FIR_'' @ uuid4 @ ''.pdf'')]) \<and>
         fs2 (''generated_pdfs/FIR_'' @ uuid4 @ ''.pdf'') =
           Some (RegularFile (pdf_bytes (fir_canvas_v2 A4 mm stringWidth
                   (''generated_pdfs/FIR_'' @ uuid4 @ ''.pdf'') fir_no fir_date section'
                   victim_name fraud_amount complaint_text))) \<and>
         file_response_content fs2
             (download_file_v2 (os_path_basename (''/download/FIR_'' @ uuid4 @ ''.pdf'')) fs2) =
           Some (pdf_bytes (fir_canvas_v2 A4 mm stringWidth
                   (''generated_pdfs/FIR_'' @ uuid4 @ ''.pdf'') fir_no fir_date section'
                   victim_name fraud_amount complaint_text))"
proof -
  let ?out = "''generated_pdfs/FIR_'' @ uuid4 @ ''.pdf''"
  let ?name = "''FIR_'' @ uuid4 @ ''.pdf''"
  have out: "OUTPUT_DIR @ ''/FIR_'' @ uuid4 @ ''.pdf'' = ?out"
    by (simp add: OUTPUT_DIR_def)
  have "os_path_basename (OUTPUT_DIR @ ''/FIR_'' @ uuid4 @ ''.pdf'') = ?name"
    using assms(1) by (rule basename_output_filename)
  then have base: "os_path_basename ?out = ?name"
    unfolding out .
  have link: "os_path_basename (''/download/FIR_'' @ uuid4 @ ''.pdf'') = ?name"
    using assms(1) by (rule basename_download_link)
  have join: "os_path_join OUTPUT_DIR ?name = ?out"
    by (simp add: os_path_join_OUTPUT_DIR)
  have "generate_fir_v1 A4 pdf_bytes uuid4 utcnow fir_no victim_name fraud_amount
          complaint_text current_user w =
        (Inr (JSONBody [(''download_link'', ''/download/'' @
                os_path_basename (OUTPUT_DIR @ ''/FIR_'' @ uuid4 @ ''.pdf''))]),
         w\<lparr>files := save pdf_bytes (fir_canvas_v1 A4 (OUTPUT_DIR @ ''/FIR_'' @ uuid4 @ ''.pdf'')
                   fir_no victim_name fraud_amount complaint_text) (files w),
           audit_logs := log_action utcnow (audit_logs w) (username current_user)
                   (''Generated FIR PDF '' @ OUTPUT_DIR @ ''/FIR_'' @ uuid4 @ ''.pdf'')\<rparr>)"
    by (simp only: generate_fir_v1_def Let_def)
  with assms(2) have r1: "r1 = Inr (JSONBody [(''download_link'', ''/download/FIR_'' @ uuid4 @ ''.pdf'')])"
    and w1: "files w1 = save pdf_bytes (fir_canvas_v1 A4 ?out fir_no victim_name fraud_amount
                complaint_text) (files w)"
    unfolding out base by auto
  have "generate_fir_v2 A4 mm stringWidth pdf_bytes uuid4 fir_no fir_date section'
          victim_name fraud_amount complaint_text fs =
        (Inr (JSONBody [(''download_link'', ''/download/'' @
                os_path_basename (OUTPUT_DIR @ ''/FIR_'' @ uuid4 @ ''.pdf''))]),
         save pdf_bytes (fir_canvas_v2 A4 mm stringWidth (OUTPUT_DIR @ ''/FIR_'' @ uuid4 @ ''.pdf'')
                   fir_no fir_date section' victim_name fraud_amount complaint_text) fs)"
    by (simp only: generate_fir_v2_def Let_def)
  with assms(3) have r2: "r2 = Inr (JSONBody [(''download_link'', ''/download/FIR_'' @ uuid4 @ ''.pdf'')])"
    and fs2: "fs2 = save pdf_bytes (fir_canvas_v2 A4 mm stringWidth ?out fir_no fir_date
                section' victim_name fraud_amount complaint_text) fs"
    unfolding out base by auto
  have f1: "files w1 ?out = Some (RegularFile (pdf_bytes (fir_canvas_v1 A4 ?out fir_no
      victim_name fraud_amount complaint_text)))"
    by (simp add: w1 save_def fir_canvas_v1_filename write_file_same)
  have f2: "fs2 ?out = Some (RegularFile (pdf_bytes (fir_canvas_v2 A4 mm stringWidth ?out
      fir_no fir_date section' victim_name fraud_amount complaint_text)))"
    by (simp add: fs2 save_def fir_canvas_v2_filename write_file_same)
  have d1: "file_response_content (files w1) (fst (download_file_v1 ?name reader w1)) =
      Some (pdf_bytes (fir_canvas_v1 A4 ?out fir_no victim_name fraud_amount complaint_text))"
    unfolding download_file_v1_def Let_def join
    using f1 by (simp add: os_path_exists_def file_response_content_def)
  have d2: "file_response_content fs2 (download_file_v2 ?name fs2) =
      Some (pdf_bytes (fir_canvas_v2 A4 mm stringWidth ?out fir_no fir_date section'
        victim_name fraud_amount complaint_text))"
    unfolding download_file_v2_def Let_def join
    using f2 by (simp add: os_path_exists_def file_response_content_def)
  show ?thesis
    unfolding link using r1 f1 d1 r2 f2 d2 by blast
qed

text \<open>One generation by \<open>admin\<close> on a fresh server, then the download of the returned link.\<close>

theorem generate_then_download_roundtrip_witness:
  "fst (generate_fir_v1 reportlab_A4 demo_pdf_bytes ''123e4567-e89b-42d3-a456-426614174000''
          1700000000 ''12/2024'' ''Asha'' ''5000'' ''lost money''
          \<lparr>username = ''admin'', full_name = None, disabled = None\<rparr> fresh_world) =
     Inr (JSONBody [(''download_link'',
            ''/download/FIR_123e4567-e89b-42d3-a456-426614174000.pdf'')]) \<and>
   file_response_content
     (files (snd (generate_fir_v1 reportlab_A4 demo_pdf_bytes
                    ''123e4567-e89b-42d3-a456-426614174000'' 1700000000 ''12/2024'' ''Asha''
                    ''5000'' ''lost money''
                    \<lparr>username = ''admin'', full_name = None, disabled = None\<rparr> fresh_world)))
     (fst (download_file_v1
             (os_path_basename ''/download/FIR_123e4567-e89b-42d3-a456-426614174000.pdf'')
             \<lparr>username = ''admin'', full_name = None, disabled = None\<rparr>
             (snd (generate_fir_v1 reportlab_A4 demo_pdf_bytes
                     ''123e4567-e89b-42d3-a456-426614174000'' 1700000000 ''12/2024'' ''Asha''
                     ''5000'' ''lost money''
                     \<lparr>username = ''admin'', full_name = None, disabled = None\<rparr>
                     fresh_world)))) =
     Some (demo_pdf_bytes
             (fir_canvas_v1 reportlab_A4
                ''generated_pdfs/FIR_123e4567-e89b-42d3-a456-426614174000.pdf''
                ''12/2024'' ''Asha'' ''5000'' ''lost money''))"
proof -
  let ?u = "''123e4567-e89b-42d3-a456-426614174000''"
  let ?admin = "\<lparr>username = ''admin'', full_name = None, disabled = None\<rparr>"
  let ?g1 = "generate_fir_v1 reportlab_A4 demo_pdf_bytes ?u 1700000000 ''12/2024'' ''Asha''
               ''5000'' ''lost money'' ?admin fresh_world"
  let ?g2 = "generate_fir_v2 reportlab_A4 reportlab_mm demo_stringWidth demo_pdf_bytes ?u
               ''12/2024'' ''2024-03-01'' ''420'' ''Asha'' ''5000'' ''lost money''
               (files fresh_world)"
  have uuid: "is_uuid_str ?u"
    by (simp add: is_uuid_str_def)
  have g1: "?g1 = (fst ?g1, snd ?g1)" and g2: "?g2 = (fst ?g2, snd ?g2)"
    by simp_all
  from generate_then_download_roundtrip [OF uuid g1 g2, of ?admin]
  show ?thesis by simp
qed

end
